theory Spec2Isabelle
  imports Main
begin

section \<open>Entry lifecycle and review approval of the knowledge base\<close>

text \<open>
  A shallow embedding of \<^verbatim>\<open>app/services/entry_service.py\<close>,
  \<^verbatim>\<open>app/services/review_service.py\<close> and of the repository methods they call
  (\<^verbatim>\<open>app/repositories/base.py\<close>, \<^verbatim>\<open>entry_repo.py\<close>, \<^verbatim>\<open>review_repo.py\<close>).
  The database session is an explicit value of type \<open>db\<close>. Every service method takes
  the session and returns its outcome together with the session as it stands when the
  method returns or raises, so that a write issued before a raise stays visible.
\<close>

subsection \<open>Data\<close>

text \<open>
  A UUID is represented by its canonical text, which is what an f-string prints.
  A timestamp is the reading of the clock, \<^verbatim>\<open>datetime.now(timezone.utc)\<close>, that
  the caller of the model passes in. Workflow states, review statuses and roles are
  Python strings and stay strings.
\<close>

type_synonym uuid = string
type_synonym timestamp = nat

record entry =
  title :: string
  description :: string
  severity :: string
  workflow_state :: string
  created_by :: string
  approved_by :: "string option"
  approved_at :: "timestamp option"
  merged_into_id :: "uuid option"

record review =
  entry_id :: uuid
  status :: string
  rca_text :: "string option"

text \<open>A row of the participants table; \<open>participant_approved_at\<close> is its column \<^verbatim>\<open>approved_at\<close>.\<close>

record participant =
  review_id :: uuid
  user_id :: string
  role :: string
  participant_approved_at :: "timestamp option"

text \<open>The request schemas \<^verbatim>\<open>ReviewParticipantCreate\<close>, \<^verbatim>\<open>ReviewCreate\<close> and \<^verbatim>\<open>ReviewDecision\<close>.\<close>

record participant_create =
  pc_user_id :: string
  pc_role :: string

record review_create =
  rc_rca_text :: "string option"
  rc_participants :: "participant_create list option"

record review_decision =
  decision_status :: string
  decision_comment :: "string option"

text \<open>
  The session: the entries and reviews tables keyed by primary key, and the rows of the
  participants table in insertion order.
\<close>

record db =
  entries :: "uuid \<rightharpoonup> entry"
  reviews :: "uuid \<rightharpoonup> review"
  participants :: "participant list"

text \<open>
  The exceptions of \<^verbatim>\<open>app/core/exceptions.py\<close> that the two services raise, with
  their messages, and the two exceptions that the database layer raises:
  \<^verbatim>\<open>scalar_one_or_none\<close> on more than one row, and a primary key used twice.
\<close>

datatype error =
    NotFoundError string
  | ValidationError string
  | WorkflowError string
  | MultipleResultsFound
  | IntegrityError

subsection \<open>Python helpers\<close>

text \<open>\<^verbatim>\<open>if approved_by:\<close> on an \<^verbatim>\<open>Optional[str]\<close>: None and the empty string are false.\<close>

definition truthy :: "string option \<Rightarrow> bool" where
  "truthy v = (case v of None \<Rightarrow> False | Some t \<Rightarrow> t \<noteq> [])"

text \<open>\<^verbatim>\<open>sep.join(xs)\<close>.\<close>

fun join :: "string \<Rightarrow> string list \<Rightarrow> string" where
  "join sep [] = []"
| "join sep [x] = x"
| "join sep (x # y # ys) = x @ sep @ join sep (y # ys)"

subsection \<open>The transition table\<close>

definition VALID_WORKFLOW_TRANSITIONS :: "(string \<times> string list) list" where
  "VALID_WORKFLOW_TRANSITIONS =
     [(''draft'', [''in_review'', ''retired'']),
      (''in_review'', [''draft'', ''published'', ''retired'']),
      (''published'', [''retired'', ''merged'']),
      (''retired'', []),
      (''merged'', [])]"

text \<open>\<^verbatim>\<open>self.VALID_WORKFLOW_TRANSITIONS.get(current_state, [])\<close>.\<close>

definition valid_transitions :: "string \<Rightarrow> string list" where
  "valid_transitions current_state =
     (case map_of VALID_WORKFLOW_TRANSITIONS current_state of
        None \<Rightarrow> []
      | Some ts \<Rightarrow> ts)"

subsection \<open>Repositories\<close>

text \<open>\<^verbatim>\<open>BaseRepository.get\<close> on the entries and on the reviews table.\<close>

definition entry_get :: "uuid \<Rightarrow> db \<Rightarrow> entry option" where
  "entry_get i s = entries s i"

definition review_get :: "uuid \<Rightarrow> db \<Rightarrow> review option" where
  "review_get i s = reviews s i"

text \<open>
  \<^verbatim>\<open>EntryRepository.update_workflow_state\<close>: a missing entry gives None and no
  write; the approver and the time are stamped only when \<open>approved_by\<close> is truthy.
\<close>

definition update_workflow_state ::
  "uuid \<Rightarrow> string \<Rightarrow> string option \<Rightarrow> timestamp \<Rightarrow> db \<Rightarrow> entry option \<times> db" where
  "update_workflow_state i new_state by now s =
     (case entry_get i s of
        None \<Rightarrow> (None, s)
      | Some e \<Rightarrow>
          let e1 = e\<lparr>workflow_state := new_state\<rparr>;
              e2 = (if truthy by then e1\<lparr>approved_by := by, approved_at := Some now\<rparr> else e1)
          in (Some e2, s\<lparr>entries := (entries s)(i \<mapsto> e2)\<rparr>))"

text \<open>\<^verbatim>\<open>ReviewRepository.get_with_participants\<close>: the review and its participant rows.\<close>

definition get_with_participants :: "uuid \<Rightarrow> db \<Rightarrow> (review \<times> participant list) option" where
  "get_with_participants i s =
     (case reviews s i of
        None \<Rightarrow> None
      | Some r \<Rightarrow> Some (r, filter (\<lambda>p. review_id p = i) (participants s)))"

text \<open>
  \<^verbatim>\<open>ReviewRepository.create_with_participants\<close>. The primary key of the new review
  is generated outside the code under study and is the parameter \<open>new_id\<close>; the
  table refuses a key it already holds. Participant rows are added only for a
  non-empty list.
\<close>

definition create_with_participants ::
  "uuid \<Rightarrow> review \<Rightarrow> participant_create list option \<Rightarrow> db \<Rightarrow> (error + uuid \<times> review) \<times> db" where
  "create_with_participants new_id review_data ps s =
     (if reviews s new_id \<noteq> None then (Inl IntegrityError, s)
      else
        let s1 = s\<lparr>reviews := (reviews s)(new_id \<mapsto> review_data)\<rparr>;
            rows = (case ps of
                      None \<Rightarrow> []
                    | Some l \<Rightarrow>
                        map (\<lambda>d. \<lparr>review_id = new_id, user_id = pc_user_id d, role = pc_role d,
                                  participant_approved_at = None\<rparr>) l)
        in (Inr (new_id, review_data), s1\<lparr>participants := participants s1 @ rows\<rparr>))"

text \<open>\<^verbatim>\<open>ReviewRepository.update_status\<close>.\<close>

definition update_status :: "uuid \<Rightarrow> string \<Rightarrow> db \<Rightarrow> review option \<times> db" where
  "update_status i new_status s =
     (case review_get i s of
        None \<Rightarrow> (None, s)
      | Some r \<Rightarrow>
          let r1 = r\<lparr>status := new_status\<rparr>
          in (Some r1, s\<lparr>reviews := (reviews s)(i \<mapsto> r1)\<rparr>))"

text \<open>
  \<^verbatim>\<open>ReviewRepository.approve_by_participant\<close>: the rows of the review with that
  user; \<^verbatim>\<open>scalar_one_or_none\<close> gives None for no row, the row for one, and raises
  for more than one.
\<close>

definition approve_by_participant ::
  "uuid \<Rightarrow> string \<Rightarrow> timestamp \<Rightarrow> db \<Rightarrow> (error + participant option) \<times> db" where
  "approve_by_participant rid uid now s =
     (case filter (\<lambda>p. review_id p = rid \<and> user_id p = uid) (participants s) of
        [] \<Rightarrow> (Inr None, s)
      | [p] \<Rightarrow>
          (Inr (Some (p\<lparr>participant_approved_at := Some now\<rparr>)),
           s\<lparr>participants :=
               map (\<lambda>q. if review_id q = rid \<and> user_id q = uid
                         then q\<lparr>participant_approved_at := Some now\<rparr> else q)
                   (participants s)\<rparr>)
      | _ \<Rightarrow> (Inl MultipleResultsFound, s))"

subsection \<open>Entry service\<close>

text \<open>\<^verbatim>\<open>EntryService.transition_workflow\<close>.\<close>

definition transition_workflow ::
  "uuid \<Rightarrow> string \<Rightarrow> string option \<Rightarrow> timestamp \<Rightarrow> db \<Rightarrow> (error + entry option) \<times> db" where
  "transition_workflow eid new_state by now s =
     (case entry_get eid s of
        None \<Rightarrow> (Inl (NotFoundError (''Entry '' @ eid @ '' not found'')), s)
      | Some e \<Rightarrow>
          let current_state = workflow_state e;
              valid = valid_transitions current_state
          in if new_state \<notin> set valid
             then (Inl (WorkflowError
                     (''Invalid transition from '' @ current_state @ '' to '' @ new_state @ ''. ''
                      @ ''Valid transitions: '' @ join '', '' valid)), s)
             else (case update_workflow_state eid new_state by now s of
                     (r, s1) \<Rightarrow> (Inr r, s1)))"

text \<open>\<^verbatim>\<open>EntryService.delete_entry\<close>: the soft delete.\<close>

definition delete_entry :: "uuid \<Rightarrow> timestamp \<Rightarrow> db \<Rightarrow> (error + bool) \<times> db" where
  "delete_entry eid now s =
     (case entry_get eid s of
        None \<Rightarrow> (Inl (NotFoundError (''Entry '' @ eid @ '' not found'')), s)
      | Some e \<Rightarrow>
          (case update_workflow_state eid ''retired'' None now s of
             (r, s1) \<Rightarrow> (Inr True, s1)))"

subsection \<open>Review service\<close>

text \<open>
  \<^verbatim>\<open>ReviewService.create_review\<close>. \<open>created_by\<close> is a parameter the source does
  not use.
\<close>

definition create_review ::
  "uuid \<Rightarrow> review_create \<Rightarrow> string \<Rightarrow> uuid \<Rightarrow> timestamp \<Rightarrow> db
     \<Rightarrow> (error + (review \<times> participant list) option) \<times> db" where
  "create_review eid review_data created new_id now s =
     (case entry_get eid s of
        None \<Rightarrow> (Inl (NotFoundError (''Entry '' @ eid @ '' not found'')), s)
      | Some e \<Rightarrow>
          if workflow_state e \<noteq> ''draft''
          then (Inl (WorkflowError
                  (''Entry must be in draft state to create review. Current state: ''
                   @ workflow_state e)), s)
          else
            let data = \<lparr>entry_id = eid, status = ''pending'', rca_text = rc_rca_text review_data\<rparr>;
                ps = (case rc_participants review_data of
                        None \<Rightarrow> None
                      | Some l \<Rightarrow> if l = [] then None else Some l)
            in (case create_with_participants new_id data ps s of
                  (Inl err, s1) \<Rightarrow> (Inl err, s1)
                | (Inr (rid, r), s1) \<Rightarrow>
                    (case update_workflow_state eid ''in_review'' None now s1 of
                       (u, s2) \<Rightarrow> (Inr (get_with_participants rid s2), s2))))"

text \<open>
  \<^verbatim>\<open>ReviewService.submit_decision\<close>. \<open>t1\<close> is the clock read when the participant
  is marked, \<open>t2\<close> the clock read when the entry is stamped. The source reads the
  entry into a variable that it never uses; the entry's state is not tested before the
  write, and the write goes to the repository, not through \<open>transition_workflow\<close>.
\<close>

definition submit_decision ::
  "uuid \<Rightarrow> review_decision \<Rightarrow> string \<Rightarrow> timestamp \<Rightarrow> timestamp \<Rightarrow> db
     \<Rightarrow> (error + (review \<times> participant list) option) \<times> db" where
  "submit_decision rid decision uid t1 t2 s =
     (case get_with_participants rid s of
        None \<Rightarrow> (Inl (NotFoundError (''Review '' @ rid @ '' not found'')), s)
      | Some (rv, ps) \<Rightarrow>
          if status rv \<noteq> ''pending''
          then (Inl (ValidationError (''Review is already '' @ status rv)), s)
          else
            (case find (\<lambda>p. user_id p = uid) ps of
               None \<Rightarrow>
                 (Inl (ValidationError (''User '' @ uid @ '' is not a participant in this review'')), s)
             | Some p \<Rightarrow>
                 (case update_status rid (decision_status decision) s of
                    (u, s1) \<Rightarrow>
                      (case (if decision_status decision = ''approved''
                             then approve_by_participant rid uid t1 s1
                             else (Inr None, s1)) of
                         (Inl err, s2) \<Rightarrow> (Inl err, s2)
                       | (Inr a, s2) \<Rightarrow>
                           let entry = entry_get (entry_id rv) s2 in
                           (case (if decision_status decision = ''approved''
                                  then update_workflow_state (entry_id rv) ''published'' (Some uid) t2 s2
                                  else if decision_status decision = ''rejected''
                                  then update_workflow_state (entry_id rv) ''draft'' None t2 s2
                                  else if decision_status decision = ''changes_requested''
                                  then update_workflow_state (entry_id rv) ''draft'' None t2 s2
                                  else (None, s2)) of
                              (w, s3) \<Rightarrow> (Inr (get_with_participants rid s3), s3))))))"

subsection \<open>Concrete sessions\<close>

text \<open>
  Sessions on which the theorems below are instantiated: one entry \<open>e1\<close>, one
  review \<open>r1\<close> of it, and the participants alice (lead) and bob (observer).
\<close>

definition draft_entry :: entry where
  "draft_entry = \<lparr>title = ''Database Connection Timeout'', description = ''Connection fails'',
     severity = ''critical'', workflow_state = ''draft'', created_by = ''carol'',
     approved_by = None, approved_at = None, merged_into_id = None\<rparr>"

definition alice_row :: participant where
  "alice_row = \<lparr>review_id = ''r1'', user_id = ''alice'', role = ''lead'', participant_approved_at = None\<rparr>"

definition bob_row :: participant where
  "bob_row = \<lparr>review_id = ''r1'', user_id = ''bob'', role = ''observer'', participant_approved_at = None\<rparr>"

definition db_draft :: db where
  "db_draft = \<lparr>entries = [''e1'' \<mapsto> draft_entry], reviews = Map.empty, participants = []\<rparr>"

definition db_in_review :: db where
  "db_in_review =
     \<lparr>entries = [''e1'' \<mapsto> draft_entry\<lparr>workflow_state := ''in_review''\<rparr>],
      reviews = [''r1'' \<mapsto> \<lparr>entry_id = ''e1'', status = ''pending'', rca_text = None\<rparr>],
      participants = [alice_row, bob_row]\<rparr>"

definition db_decided :: db where
  "db_decided =
     \<lparr>entries = [''e1'' \<mapsto> draft_entry],
      reviews = [''r1'' \<mapsto> \<lparr>entry_id = ''e1'', status = ''rejected'', rca_text = None\<rparr>],
      participants = [alice_row, bob_row]\<rparr>"


definition db_merged :: db where
  "db_merged =
     \<lparr>entries = [''e1'' \<mapsto> draft_entry\<lparr>workflow_state := ''merged''\<rparr>],
      reviews = Map.empty, participants = []\<rparr>"

definition db_retired_under_review :: db where
  "db_retired_under_review =
     \<lparr>entries = [''e1'' \<mapsto> draft_entry\<lparr>workflow_state := ''retired''\<rparr>],
      reviews = [''r1'' \<mapsto> \<lparr>entry_id = ''e1'', status = ''pending'', rca_text = None\<rparr>],
      participants = [alice_row, bob_row]\<rparr>"




section \<open>The transition table\<close>

lemma valid_transitions_draft: "valid_transitions ''draft'' = [''in_review'', ''retired'']"
  by (simp add: valid_transitions_def VALID_WORKFLOW_TRANSITIONS_def)

lemma valid_transitions_in_review:
  "valid_transitions ''in_review'' = [''draft'', ''published'', ''retired'']"
  by (simp add: valid_transitions_def VALID_WORKFLOW_TRANSITIONS_def)

lemma valid_transitions_published: "valid_transitions ''published'' = [''retired'', ''merged'']"
  by (simp add: valid_transitions_def VALID_WORKFLOW_TRANSITIONS_def)

lemma valid_transitions_retired: "valid_transitions ''retired'' = []"
  by (simp add: valid_transitions_def VALID_WORKFLOW_TRANSITIONS_def)

lemma valid_transitions_merged: "valid_transitions ''merged'' = []"
  by (simp add: valid_transitions_def VALID_WORKFLOW_TRANSITIONS_def)

lemma valid_transitions_other:
  "c \<notin> {''draft'', ''in_review'', ''published'', ''retired'', ''merged''}
     \<Longrightarrow> valid_transitions c = []"
  by (simp add: valid_transitions_def VALID_WORKFLOW_TRANSITIONS_def)

text \<open>
  C1. The legality check that \<open>transition_workflow\<close> consults accepts a pair
  (current, target) exactly when it is one of the seven pairs of the table:
  draft to in_review or retired; in_review to draft, published or retired; published
  to retired or merged. In particular it accepts no pair whose source is retired or
  merged. This holds for all strings, not only for the five state names.
\<close>

theorem C1_valid_transitions_table:
  "(target \<in> set (valid_transitions current)) =
     ((current, target) \<in>
        {(''draft'', ''in_review''), (''draft'', ''retired''),
         (''in_review'', ''draft''), (''in_review'', ''published''), (''in_review'', ''retired''),
         (''published'', ''retired''), (''published'', ''merged'')})"
proof -
  consider "current = ''draft''" | "current = ''in_review''" | "current = ''published''"
    | "current = ''retired''" | "current = ''merged''"
    | "current \<notin> {''draft'', ''in_review'', ''published'', ''retired'', ''merged''}"
    by (cases "current = ''draft''"; cases "current = ''in_review''";
        cases "current = ''published''"; cases "current = ''retired''";
        cases "current = ''merged''")
       (simp_all only: insert_iff empty_iff simp_thms)
  then show ?thesis
  proof cases
    case 1 then show ?thesis by (simp add: valid_transitions_draft)
  next
    case 2 then show ?thesis by (simp add: valid_transitions_in_review)
  next
    case 3 then show ?thesis by (simp add: valid_transitions_published)
  next
    case 4 then show ?thesis by (simp add: valid_transitions_retired)
  next
    case 5 then show ?thesis by (simp add: valid_transitions_merged)
  next
    case 6 then show ?thesis by (simp add: valid_transitions_other)
  qed
qed

section \<open>Failing calls leave the session as it was\<close>

lemma find_user_None:
  "(find (\<lambda>p. user_id p = uid) (filter (\<lambda>p. review_id p = rid) rows) = None) =
     (\<forall>p \<in> set rows. review_id p = rid \<longrightarrow> user_id p \<noteq> uid)"
  by (auto simp: find_None_iff)

text \<open>
  C6. For an existing entry whose workflow state is not draft, \<open>create_review\<close>
  raises WorkflowError, and the session at the raise is the session of the call: no
  review and no participant row has been added, and the entry is as it was.
\<close>

theorem C6_create_review_not_draft:
  assumes "entries s eid = Some e" and "workflow_state e \<noteq> ''draft''"
  shows "create_review eid review_data creator new_id now s =
           (Inl (WorkflowError
              (''Entry must be in draft state to create review. Current state: ''
               @ workflow_state e)), s)"
  using assms by (simp add: create_review_def entry_get_def)

theorem C6_witness:
  "entries db_in_review ''e1'' = Some (draft_entry\<lparr>workflow_state := ''in_review''\<rparr>)
   \<and> workflow_state (draft_entry\<lparr>workflow_state := ''in_review''\<rparr>) \<noteq> ''draft''
   \<and> create_review ''e1'' \<lparr>rc_rca_text = None, rc_participants = None\<rparr> ''carol'' ''r2'' 7 db_in_review =
       (Inl (WorkflowError ''Entry must be in draft state to create review. Current state: in_review''),
        db_in_review)"
proof -
  have h1: "entries db_in_review ''e1'' = Some (draft_entry\<lparr>workflow_state := ''in_review''\<rparr>)"
    by (simp add: db_in_review_def)
  have h2: "workflow_state (draft_entry\<lparr>workflow_state := ''in_review''\<rparr>) \<noteq> ''draft''"
    by simp
  show ?thesis
    using h1 h2 C6_create_review_not_draft [OF h1 h2, of "\<lparr>rc_rca_text = None, rc_participants = None\<rparr>" "''carol''" "''r2''" 7]
    by simp
qed

text \<open>
  C7. For a review whose status is not pending, \<open>submit_decision\<close> raises
  ValidationError, and the session at the raise is the session of the call: the
  review's status, its participants and the entry are as they were.
\<close>

theorem C7_submit_decision_not_pending:
  assumes "reviews s rid = Some r" and "status r \<noteq> ''pending''"
  shows "submit_decision rid decision uid t1 t2 s =
           (Inl (ValidationError (''Review is already '' @ status r)), s)"
  using assms by (simp add: submit_decision_def get_with_participants_def)

theorem C7_witness:
  "reviews db_decided ''r1'' = Some \<lparr>entry_id = ''e1'', status = ''rejected'', rca_text = None\<rparr>
   \<and> status \<lparr>entry_id = ''e1'', status = ''rejected'', rca_text = None\<rparr> \<noteq> ''pending''
   \<and> submit_decision ''r1'' \<lparr>decision_status = ''approved'', decision_comment = None\<rparr> ''alice'' 3 4 db_decided =
       (Inl (ValidationError ''Review is already rejected''), db_decided)"
proof -
  have h1: "reviews db_decided ''r1'' = Some \<lparr>entry_id = ''e1'', status = ''rejected'', rca_text = None\<rparr>"
    by (simp add: db_decided_def)
  have h2: "status \<lparr>entry_id = ''e1'', status = ''rejected'', rca_text = None\<rparr> \<noteq> ''pending''"
    by simp
  show ?thesis
    using h1 h2 C7_submit_decision_not_pending [OF h1 h2, of "\<lparr>decision_status = ''approved'', decision_comment = None\<rparr>" "''alice''" 3 4]
    by simp
qed

text \<open>
  C8. For a pending review and a user with no participant row of that review,
  \<open>submit_decision\<close> raises ValidationError whatever the submitted status, and the
  session at the raise is the session of the call: the review is still pending and
  the entry is as it was. No hypothesis is made on the roles of the participants.
\<close>

theorem C8_submit_decision_non_participant:
  assumes "reviews s rid = Some r" and "status r = ''pending''"
    and "\<forall>p \<in> set (participants s). review_id p = rid \<longrightarrow> user_id p \<noteq> uid"
  shows "submit_decision rid decision uid t1 t2 s =
           (Inl (ValidationError (''User '' @ uid @ '' is not a participant in this review'')), s)"
proof -
  have "find (\<lambda>p. user_id p = uid) (filter (\<lambda>p. review_id p = rid) (participants s)) = None"
    using assms(3) by (simp only: find_user_None)
  then show ?thesis
    using assms(1,2) by (simp add: submit_decision_def get_with_participants_def)
qed

theorem C8_witness:
  "reviews db_in_review ''r1'' = Some \<lparr>entry_id = ''e1'', status = ''pending'', rca_text = None\<rparr>
   \<and> filter (\<lambda>p. review_id p = ''r1'' \<and> user_id p = ''mallory'') (participants db_in_review) = []
   \<and> submit_decision ''r1'' \<lparr>decision_status = ''approved'', decision_comment = None\<rparr> ''mallory'' 3 4 db_in_review =
       (Inl (ValidationError ''User mallory is not a participant in this review''), db_in_review)"
proof -
  have h1: "reviews db_in_review ''r1'' = Some \<lparr>entry_id = ''e1'', status = ''pending'', rca_text = None\<rparr>"
    by (simp add: db_in_review_def)
  have h2: "status \<lparr>entry_id = ''e1'', status = ''pending'', rca_text = None\<rparr> = ''pending''"
    by simp
  have h3: "\<forall>p \<in> set (participants db_in_review). review_id p = ''r1'' \<longrightarrow> user_id p \<noteq> ''mallory''"
    by (simp add: db_in_review_def alice_row_def bob_row_def)
  have h4: "filter (\<lambda>p. review_id p = ''r1'' \<and> user_id p = ''mallory'') (participants db_in_review) = []"
    by (simp add: db_in_review_def alice_row_def bob_row_def)
  show ?thesis
    using h1 h4 C8_submit_decision_non_participant [OF h1 h2 h3, of "\<lparr>decision_status = ''approved'', decision_comment = None\<rparr>" 3 4]
    by simp
qed



section \<open>Successful calls\<close>

lemma find_user_Some:
  assumes "\<exists>p \<in> set rows. review_id p = rid \<and> user_id p = uid"
  shows "\<exists>p. find (\<lambda>p. user_id p = uid) (filter (\<lambda>p. review_id p = rid) rows) = Some p"
proof (cases "find (\<lambda>p. user_id p = uid) (filter (\<lambda>p. review_id p = rid) rows)")
  case None
  then have "\<forall>p \<in> set rows. review_id p = rid \<longrightarrow> user_id p \<noteq> uid"
    by (simp only: find_user_None)
  with assms show ?thesis by blast
next
  case (Some p)
  then show ?thesis by blast
qed



text \<open>
  Whenever \<open>create_review\<close> raises, the session at the raise is the session of the
  call: the review is never written without the entry's change of state.
\<close>

lemma create_review_all_or_nothing:
  "fst (create_review eid review_data creator new_id now s) = Inl err
     \<Longrightarrow> snd (create_review eid review_data creator new_id now s) = s"
  by (auto simp: create_review_def entry_get_def create_with_participants_def
        update_workflow_state_def Let_def split: option.splits if_splits prod.splits sum.splits)

text \<open>
  C4. For an existing entry in state draft (and a primary key that the reviews table
  does not hold yet), \<open>create_review\<close> succeeds; it returns the new review, whose
  status is pending and whose entry is the given one; the session it leaves holds that
  review and holds the entry in state in_review. So after the call the review exists
  and the entry has left draft, both at once.
\<close>

theorem C4_create_review_draft:
  assumes "entries s eid = Some e" and "workflow_state e = ''draft''"
    and "reviews s new_id = None"
  shows "\<exists>ps s'.
           create_review eid review_data creator new_id now s =
             (Inr (Some (\<lparr>entry_id = eid, status = ''pending'',
                          rca_text = rc_rca_text review_data\<rparr>, ps)), s')
         \<and> reviews s' =
             (reviews s)(new_id \<mapsto> \<lparr>entry_id = eid, status = ''pending'',
                                      rca_text = rc_rca_text review_data\<rparr>)
         \<and> entries s' = (entries s)(eid \<mapsto> e\<lparr>workflow_state := ''in_review''\<rparr>)"
  using assms
  by (simp add: create_review_def entry_get_def create_with_participants_def
        update_workflow_state_def truthy_def get_with_participants_def Let_def)

theorem C4_witness:
  "entries db_draft ''e1'' = Some draft_entry \<and> workflow_state draft_entry = ''draft''
   \<and> reviews db_draft ''r1'' = None
   \<and> (\<exists>ps s'.
        create_review ''e1'' \<lparr>rc_rca_text = None, rc_participants = None\<rparr> ''carol'' ''r1'' 7 db_draft =
          (Inr (Some (\<lparr>entry_id = ''e1'', status = ''pending'', rca_text = None\<rparr>, ps)), s')
        \<and> reviews s' = (reviews db_draft)(''r1'' \<mapsto> \<lparr>entry_id = ''e1'', status = ''pending'', rca_text = None\<rparr>)
        \<and> entries s' = (entries db_draft)(''e1'' \<mapsto> draft_entry\<lparr>workflow_state := ''in_review''\<rparr>))"
proof -
  have h1: "entries db_draft ''e1'' = Some draft_entry" by (simp add: db_draft_def)
  have h2: "workflow_state draft_entry = ''draft''" by (simp add: draft_entry_def)
  have h3: "reviews db_draft ''r1'' = None" by (simp add: db_draft_def)
  show ?thesis
    using h1 h2 h3
      C4_create_review_draft [OF h1 h2 h3, of "\<lparr>rc_rca_text = None, rc_participants = None\<rparr>" "''carol''" 7]
    by simp
qed






text \<open>
  C5. For a pending review, a participant and an existing entry, \<open>submit_decision\<close>
  with status rejected or changes_requested succeeds and changes the entry only in
  its workflow state, which becomes draft: \<open>approved_by\<close> and \<open>approved_at\<close> keep
  their values. The entries table after a rejection equals the entries table after a
  request for changes.
\<close>

theorem C5_submit_decision_back_to_draft:
  assumes "reviews s rid = Some r" and "status r = ''pending''"
    and "\<exists>q \<in> set (participants s). review_id q = rid \<and> user_id q = uid"
    and "entries s (entry_id r) = Some e"
    and "d = ''rejected'' \<or> d = ''changes_requested''"
  shows "(\<exists>ps s' e'.
            submit_decision rid \<lparr>decision_status = d, decision_comment = c\<rparr> uid t1 t2 s =
              (Inr (Some (r\<lparr>status := d\<rparr>, ps)), s')
          \<and> entries s' = (entries s)(entry_id r \<mapsto> e')
          \<and> e' = e\<lparr>workflow_state := ''draft''\<rparr>
          \<and> workflow_state e' = ''draft''
          \<and> approved_by e' = approved_by e \<and> approved_at e' = approved_at e)
       \<and> entries (snd (submit_decision rid
                          \<lparr>decision_status = ''rejected'', decision_comment = c\<rparr> uid t1 t2 s)) =
          entries (snd (submit_decision rid
                          \<lparr>decision_status = ''changes_requested'', decision_comment = c\<rparr> uid t1 t2 s))"
proof -
  obtain p0 where f: "find (\<lambda>p. user_id p = uid)
      (filter (\<lambda>p. review_id p = rid) (participants s)) = Some p0"
    using assms(3) find_user_Some by blast
  have run: "submit_decision rid \<lparr>decision_status = x, decision_comment = c\<rparr> uid t1 t2 s =
      (Inr (Some (r\<lparr>status := x\<rparr>, filter (\<lambda>q. review_id q = rid) (participants s))),
       s\<lparr>reviews := (reviews s)(rid \<mapsto> r\<lparr>status := x\<rparr>),
          entries := (entries s)(entry_id r \<mapsto> e\<lparr>workflow_state := ''draft''\<rparr>)\<rparr>)"
    if "x = ''rejected'' \<or> x = ''changes_requested''" for x
    using that assms(1,2,4) f
    by (auto simp: submit_decision_def get_with_participants_def update_status_def review_get_def
          update_workflow_state_def entry_get_def truthy_def Let_def)
  have "\<exists>ps s' e'.
            submit_decision rid \<lparr>decision_status = d, decision_comment = c\<rparr> uid t1 t2 s =
              (Inr (Some (r\<lparr>status := d\<rparr>, ps)), s')
          \<and> entries s' = (entries s)(entry_id r \<mapsto> e')
          \<and> e' = e\<lparr>workflow_state := ''draft''\<rparr>
          \<and> workflow_state e' = ''draft''
          \<and> approved_by e' = approved_by e \<and> approved_at e' = approved_at e"
    using run [OF assms(5)] by simp
  moreover have "entries (snd (submit_decision rid
                          \<lparr>decision_status = ''rejected'', decision_comment = c\<rparr> uid t1 t2 s)) =
          entries (snd (submit_decision rid
                          \<lparr>decision_status = ''changes_requested'', decision_comment = c\<rparr> uid t1 t2 s))"
    using run [of "''rejected''"] run [of "''changes_requested''"] by simp
  ultimately show ?thesis by blast
qed

theorem C5_witness:
  "reviews db_in_review ''r1'' = Some \<lparr>entry_id = ''e1'', status = ''pending'', rca_text = None\<rparr>
   \<and> (\<exists>q \<in> set (participants db_in_review). review_id q = ''r1'' \<and> user_id q = ''bob'')
   \<and> entries db_in_review ''e1'' = Some (draft_entry\<lparr>workflow_state := ''in_review''\<rparr>)
   \<and> (\<exists>ps s' e'.
         submit_decision ''r1'' \<lparr>decision_status = ''changes_requested'', decision_comment = None\<rparr>
           ''bob'' 3 4 db_in_review =
           (Inr (Some (\<lparr>entry_id = ''e1'', status = ''changes_requested'', rca_text = None\<rparr>, ps)), s')
       \<and> entries s' = (entries db_in_review)(''e1'' \<mapsto> e')
       \<and> e' = draft_entry\<lparr>workflow_state := ''draft''\<rparr>
       \<and> workflow_state e' = ''draft''
       \<and> approved_by e' = approved_by draft_entry \<and> approved_at e' = approved_at draft_entry)
   \<and> entries (snd (submit_decision ''r1''
                      \<lparr>decision_status = ''rejected'', decision_comment = None\<rparr> ''bob'' 3 4 db_in_review)) =
     entries (snd (submit_decision ''r1''
                      \<lparr>decision_status = ''changes_requested'', decision_comment = None\<rparr> ''bob'' 3 4 db_in_review))"
proof -
  let ?r = "\<lparr>entry_id = ''e1'', status = ''pending'', rca_text = None\<rparr>"
  have h1: "reviews db_in_review ''r1'' = Some ?r" by (simp add: db_in_review_def)
  have h2: "status ?r = ''pending''" by simp
  have h3: "\<exists>q \<in> set (participants db_in_review). review_id q = ''r1'' \<and> user_id q = ''bob''"
    by (simp add: db_in_review_def alice_row_def bob_row_def)
  have h4: "entries db_in_review (entry_id ?r) = Some (draft_entry\<lparr>workflow_state := ''in_review''\<rparr>)"
    by (simp add: db_in_review_def)
  have h5: "''changes_requested'' = ''rejected'' \<or> ''changes_requested'' = ''changes_requested''"
    by simp
  show ?thesis
    using h1 h3 h4 C5_submit_decision_back_to_draft [OF h1 h2 h3 h4 h5, of None 3 4]
    by simp
qed









section \<open>Terminal states\<close>

text \<open>
  The path that consults the table does keep a retired or merged entry as it is.
\<close>

lemma transition_workflow_terminal:
  assumes "entries s eid = Some e"
    and "workflow_state e = ''retired'' \<or> workflow_state e = ''merged''"
  shows "snd (transition_workflow eid target by now s) = s"
  using assms
  by (auto simp: transition_workflow_def entry_get_def Let_def
        valid_transitions_retired valid_transitions_merged)

text \<open>
  The two other writers of the workflow state, \<open>delete_entry\<close> and
  \<open>submit_decision\<close>, evaluated on a retired and on a merged entry.
\<close>

lemma db_in_review_reached:
  "snd (create_review ''e1''
          \<lparr>rc_rca_text = None,
             rc_participants = Some [\<lparr>pc_user_id = ''alice'', pc_role = ''lead''\<rparr>,
                                     \<lparr>pc_user_id = ''bob'', pc_role = ''observer''\<rparr>]\<rparr>
          ''carol'' ''r1'' 0 db_draft) = db_in_review"
  by (simp add: create_review_def entry_get_def create_with_participants_def
        update_workflow_state_def truthy_def get_with_participants_def Let_def
        db_draft_def db_in_review_def alice_row_def bob_row_def draft_entry_def)

lemma db_retired_reached:
  "snd (delete_entry ''e1'' 1 db_in_review) = db_retired_under_review"
  by (simp add: delete_entry_def entry_get_def update_workflow_state_def truthy_def Let_def
        db_in_review_def db_retired_under_review_def)

lemma submit_on_retired:
  "map_option workflow_state
     (entries (snd (submit_decision ''r1''
                      \<lparr>decision_status = ''approved'', decision_comment = None\<rparr>
                      ''alice'' 2 3 db_retired_under_review)) ''e1'') = Some ''published''"
  by (simp add: submit_decision_def get_with_participants_def update_status_def review_get_def
        approve_by_participant_def update_workflow_state_def entry_get_def truthy_def Let_def
        db_retired_under_review_def alice_row_def bob_row_def)

lemma delete_on_merged:
  "map_option workflow_state (entries (snd (delete_entry ''e1'' 2 db_merged)) ''e1'') = Some ''retired''"
  by (simp add: update_workflow_state_def entry_get_def truthy_def Let_def
        delete_entry_def db_merged_def)

text \<open>
  C2. Terminal states are not preserved by every operation. A draft entry is put
  under review and then soft-deleted, which retires it and leaves its review pending;
  the approval of that review then publishes the retired entry. Likewise
  \<open>delete_entry\<close> on a merged entry makes it retired. Both writes go to the
  repository without consulting the transition table, whose rows for retired and
  merged are empty.
\<close>

theorem C2_terminal_state_overwritten:
  "map_option workflow_state
     (entries
        (snd (delete_entry ''e1'' 1
           (snd (create_review ''e1''
                   \<lparr>rc_rca_text = None,
                      rc_participants = Some [\<lparr>pc_user_id = ''alice'', pc_role = ''lead''\<rparr>,
                                              \<lparr>pc_user_id = ''bob'', pc_role = ''observer''\<rparr>]\<rparr>
                   ''carol'' ''r1'' 0 db_draft)))) ''e1'') = Some ''retired''
   \<and> map_option workflow_state
       (entries
          (snd (submit_decision ''r1'' \<lparr>decision_status = ''approved'', decision_comment = None\<rparr>
                  ''alice'' 2 3
             (snd (delete_entry ''e1'' 1
                (snd (create_review ''e1''
                        \<lparr>rc_rca_text = None,
                           rc_participants = Some [\<lparr>pc_user_id = ''alice'', pc_role = ''lead''\<rparr>,
                                                   \<lparr>pc_user_id = ''bob'', pc_role = ''observer''\<rparr>]\<rparr>
                        ''carol'' ''r1'' 0 db_draft)))))) ''e1'') = Some ''published''
   \<and> map_option workflow_state (entries db_merged ''e1'') = Some ''merged''
   \<and> map_option workflow_state
       (entries (snd (delete_entry ''e1'' 2 db_merged)) ''e1'') = Some ''retired''"
proof -
  have "map_option workflow_state (entries db_retired_under_review ''e1'') = Some ''retired''"
    by (simp add: db_retired_under_review_def)
  moreover have "map_option workflow_state (entries db_merged ''e1'') = Some ''merged''"
    by (simp add: db_merged_def)
  ultimately show ?thesis
    by (simp only: db_in_review_reached db_retired_reached submit_on_retired delete_on_merged simp_thms)
qed

end
